theory Spec2Isabelle
  imports Complex_Main "HOL-Library.Product_Lexorder"
begin

section \<open>Data model\<close>

text \<open>
  The tables are pandas data frames. A float64 entry is modelled as a \<open>real option\<close>:
  \<open>None\<close> is NaN, \<open>Some r\<close> the number \<open>r\<close>; floating-point arithmetic is read as
  arithmetic on the reals. The calendar columns \<open>Year\<close>, \<open>Month\<close> and \<open>Quarter\<close> that
  the loader derives from \<open>Start date\<close> are NaN on a row whose date did not parse, so
  they are optional integers; \<open>Start date\<close> itself is an optional time stamp (\<open>None\<close> is
  NaT), given as an integer.
\<close>

record dated =
  Start_date :: "int option"
  Year :: "int option"
  Month :: "int option"
  Quarter :: "int option"

text \<open>A consumption row adds the column
  \<open>Total (grid load) [MWh] Calculated resolutions\<close>.\<close>

record cons_row = dated +
  Total_load :: "real option"

text \<open>A generation row adds one entry per value column, looked up by the column's
  name, as \<open>pd.to_numeric(errors='coerce')\<close> reads it: a number, or NaN for a missing
  or non-numeric entry. The frame lists the names of its value columns.\<close>

record gen_row = dated +
  cell :: "string \<Rightarrow> real option"

record gen_frame =
  columns :: "string list"
  rows :: "gen_row list"

section \<open>Filter (data\_loader.py)\<close>

text \<open>
  The row mask of both definitions of \<open>filter_data\<close>:
  \<open>(df["Year"] >= ys[0]) & (df["Year"] <= ys[1]) & df["Month"].isin(ms)\<close>.
  A comparison with NaN is false, and NaN is not a member of a list of month numbers.
\<close>

definition year_ge :: "int option \<Rightarrow> int \<Rightarrow> bool" where
  "year_ge y lo = (case y of None \<Rightarrow> False | Some v \<Rightarrow> v \<ge> lo)"

definition year_le :: "int option \<Rightarrow> int \<Rightarrow> bool" where
  "year_le y hi = (case y of None \<Rightarrow> False | Some v \<Rightarrow> v \<le> hi)"

definition isin :: "int option \<Rightarrow> int list \<Rightarrow> bool" where
  "isin m ms = (case m of None \<Rightarrow> False | Some v \<Rightarrow> v \<in> set ms)"

definition row_mask :: "int \<times> int \<Rightarrow> int list \<Rightarrow> 'a dated_scheme \<Rightarrow> bool" where
  "row_mask year_selection month_selection r =
     (year_ge (Year r) (fst year_selection) \<and>
      year_le (Year r) (snd year_selection) \<and>
      isin (Month r) month_selection)"

text \<open>Boolean indexing keeps the selected rows in their order; the generation frame
  keeps its columns.\<close>

definition select_gen :: "(gen_row \<Rightarrow> bool) \<Rightarrow> gen_frame \<Rightarrow> gen_frame" where
  "select_gen p g = g\<lparr>rows := filter p (rows g)\<rparr>"

text \<open>The earlier definition (lines 165-191): generation first, then consumption.\<close>

definition filter_data_earlier ::
  "gen_frame \<Rightarrow> cons_row list \<Rightarrow> int \<times> int \<Rightarrow> int list \<Rightarrow> string list
     \<Rightarrow> gen_frame \<times> cons_row list" where
  "filter_data_earlier energy_generation energy_consumption year_selection
       month_selection selected_sources =
     (let filtered_energy_gen =
            select_gen (row_mask year_selection month_selection) energy_generation;
          filtered_energy_cons =
            filter (row_mask year_selection month_selection) energy_consumption
      in (filtered_energy_gen, filtered_energy_cons))"

text \<open>The later definition (lines 217-243), the one the module exports: consumption
  first, then generation.\<close>

definition filter_data ::
  "gen_frame \<Rightarrow> cons_row list \<Rightarrow> int \<times> int \<Rightarrow> int list \<Rightarrow> string list
     \<Rightarrow> gen_frame \<times> cons_row list" where
  "filter_data energy_generation energy_consumption year_selection
       month_selection selected_sources =
     (let filtered_energy_cons =
            filter (row_mask year_selection month_selection) energy_consumption;
          filtered_energy_gen =
            select_gen (row_mask year_selection month_selection) energy_generation
      in (filtered_energy_gen, filtered_energy_cons))"

section \<open>Shared helpers: NaN-skipping sums and group-by\<close>

text \<open>\<open>Series.sum()\<close> skips NaN; the sum of no numbers is 0.\<close>

fun nansum :: "real option list \<Rightarrow> real" where
  "nansum [] = 0"
| "nansum (None # xs) = nansum xs"
| "nansum (Some v # xs) = v + nansum xs"

text \<open>\<open>groupby\<close> drops the rows whose key is NaN and lists the distinct keys in
  ascending order; \<open>members\<close> are the rows of one group, in their order.\<close>

definition group_keys :: "('r \<Rightarrow> 'k option) \<Rightarrow> 'r list \<Rightarrow> ('k::linorder) list" where
  "group_keys key df = sort (remdups (List.map_filter key df))"

definition members :: "('r \<Rightarrow> 'k option) \<Rightarrow> 'r list \<Rightarrow> 'k \<Rightarrow> 'r list" where
  "members key df k = filter (\<lambda>r. key r = Some k) df"

definition year_month :: "'a dated_scheme \<Rightarrow> (int \<times> int) option" where
  "year_month r =
     (case Year r of None \<Rightarrow> None
      | Some y \<Rightarrow> (case Month r of None \<Rightarrow> None | Some m \<Rightarrow> Some (y, m)))"

definition year_quarter :: "'a dated_scheme \<Rightarrow> (int \<times> int) option" where
  "year_quarter r =
     (case Year r of None \<Rightarrow> None
      | Some y \<Rightarrow> (case Quarter r of None \<Rightarrow> None | Some q \<Rightarrow> Some (y, q)))"

section \<open>Forecaster (analysis.py, forecast\_energy\_trends)\<close>

text \<open>
  The index of the monthly series and of the forecast holds time stamps at midnight; such
  a time stamp is modelled by its day number, the days from 1970-01-01 to its date in
  the Gregorian calendar. \<open>days_from_civil y m d\<close> is the day number of the date
  \<open>y-m-d\<close>.
\<close>

definition days_from_civil :: "int \<Rightarrow> int \<Rightarrow> int \<Rightarrow> int" where
  "days_from_civil y m d =
     (let y' = (if m \<le> 2 then y - 1 else y);
          era = y' div 400;
          yoe = y' mod 400;
          doy = (153 * (if m > 2 then m - 3 else m + 9) + 2) div 5 + d - 1;
          doe = yoe * 365 + yoe div 4 - yoe div 100 + doy
      in era * 146097 + doe - 719468)"

text \<open>
  The library keeps a time stamp, and a time span, as a signed 64-bit count of
  nanoseconds. A midnight is representable from 1677-09-22 to 2262-04-11, the day
  numbers \<open>-106751\<close> to \<open>106751\<close>, and a span of whole days within the same bounds;
  building a value outside them raises an exception.
\<close>

definition representable :: "int \<Rightarrow> bool" where
  "representable days = (- 106751 \<le> days \<and> days \<le> 106751)"

text \<open>\<open>monthly_data\<close> after the group-by: one sum per (year, month) key.\<close>

definition monthly_sums :: "cons_row list \<Rightarrow> ((int \<times> int) \<times> real) list" where
  "monthly_sums df =
     map (\<lambda>k. (k, nansum (map Total_load (members year_month df k))))
       (group_keys year_month df)"

text \<open>\<open>pd.to_datetime\<close> of the columns Year, Month and Day = 1 raises ValueError on a
  month number that is no calendar month and on a date outside the representable
  range; \<open>None\<close> is that exception.\<close>

definition to_datetime :: "int \<times> int \<Rightarrow> int option" where
  "to_datetime k =
     (if 1 \<le> snd k \<and> snd k \<le> 12 \<and> representable (days_from_civil (fst k) (snd k) 1)
      then Some (days_from_civil (fst k) (snd k) 1) else None)"

text \<open>\<open>last_date + timedelta(days=n)\<close> raises when the span or the resulting time stamp
  is not representable; \<open>None\<close> is that exception.\<close>

definition add_days :: "int \<Rightarrow> int \<Rightarrow> int option" where
  "add_days t n = (if representable n \<and> representable (t + n) then Some (t + n) else None)"

definition growth_factor :: real where
  "growth_factor = 102 / 100"

text \<open>
  The result \<open>None\<close> stands for the pair \<open>(None, None)\<close>, returned when fewer than 12
  months exist and by the \<open>except\<close> clause, which catches the exceptions of
  \<open>to_datetime\<close> and of the forecast dates; \<open>Some (monthly_data, forecast)\<close> is the
  pair of series, each a list of (date, value).
\<close>

definition forecast_energy_trends ::
  "cons_row list \<Rightarrow> int \<Rightarrow> ((int \<times> real) list \<times> (int \<times> real) list) option" where
  "forecast_energy_trends df periods =
     (let totals = monthly_sums df in
      (case those (map (to_datetime \<circ> fst) totals) of
        None \<Rightarrow> None
      | Some dates \<Rightarrow>
          (let monthly_data = zip dates (map snd totals) in
           if length monthly_data \<ge> 12 then
             (let last_12_months = drop (length monthly_data - 12) (map snd monthly_data);
                  last_date = fst (last monthly_data)
              in
              (case those (map (\<lambda>i. add_days last_date (30 * i)) [1..periods]) of
                 None \<Rightarrow> None
               | Some forecast_dates \<Rightarrow>
                   (let forecast_values =
                          map (\<lambda>i. last_12_months ! (i mod 12) * growth_factor ^ (i div 12 + 1))
                            [0..<nat periods]
                    in Some (monthly_data, zip forecast_dates forecast_values))))
           else None)))"

section \<open>AnomalyDetector (analysis.py, identify\_anomalies)\<close>

text \<open>
  \<open>rolling(window=w)\<close> has \<open>min_periods = w\<close>: the statistic of row \<open>i\<close> (0-based) is
  NaN unless the \<open>w\<close> rows ending at \<open>i\<close> exist and all hold numbers. The mean of no
  observation is NaN, and the sample standard deviation (\<open>ddof = 1\<close>) needs two.
\<close>

definition window_values :: "real option list \<Rightarrow> nat \<Rightarrow> nat \<Rightarrow> real list option" where
  "window_values xs w i =
     (if w \<le> i + 1 then those (take w (drop (i + 1 - w) xs)) else None)"

definition mean :: "real list \<Rightarrow> real" where
  "mean vs = sum_list vs / real (length vs)"

definition sample_std :: "real list \<Rightarrow> real" where
  "sample_std vs =
     sqrt (sum_list (map (\<lambda>v. (v - mean vs)\<^sup>2) vs) / real (length vs - 1))"

definition rolling_mean :: "real option list \<Rightarrow> nat \<Rightarrow> nat \<Rightarrow> real option" where
  "rolling_mean xs w i =
     (case window_values xs w i of
        None \<Rightarrow> None
      | Some vs \<Rightarrow> if 1 \<le> w then Some (mean vs) else None)"

definition rolling_std :: "real option list \<Rightarrow> nat \<Rightarrow> nat \<Rightarrow> real option" where
  "rolling_std xs w i =
     (case window_values xs w i of
        None \<Rightarrow> None
      | Some vs \<Rightarrow> if 2 \<le> w then Some (sample_std vs) else None)"

text \<open>Arithmetic with NaN gives NaN; a comparison with NaN is false.\<close>

definition nan_add :: "real option \<Rightarrow> real option \<Rightarrow> real option" where
  "nan_add a b = (case a of None \<Rightarrow> None | Some x \<Rightarrow> map_option (\<lambda>y. x + y) b)"

definition nan_sub :: "real option \<Rightarrow> real option \<Rightarrow> real option" where
  "nan_sub a b = (case a of None \<Rightarrow> None | Some x \<Rightarrow> map_option (\<lambda>y. x - y) b)"

definition nan_gt :: "real option \<Rightarrow> real option \<Rightarrow> bool" where
  "nan_gt a b = (case a of None \<Rightarrow> False | Some x \<Rightarrow> (case b of None \<Rightarrow> False | Some y \<Rightarrow> x > y))"

definition nan_lt :: "real option \<Rightarrow> real option \<Rightarrow> bool" where
  "nan_lt a b = (case a of None \<Rightarrow> False | Some x \<Rightarrow> (case b of None \<Rightarrow> False | Some y \<Rightarrow> x < y))"

definition upper_bound :: "real option list \<Rightarrow> nat \<Rightarrow> real \<Rightarrow> nat \<Rightarrow> real option" where
  "upper_bound xs w threshold i =
     nan_add (rolling_mean xs w i) (map_option (\<lambda>s. s * threshold) (rolling_std xs w i))"

definition lower_bound :: "real option list \<Rightarrow> nat \<Rightarrow> real \<Rightarrow> nat \<Rightarrow> real option" where
  "lower_bound xs w threshold i =
     nan_sub (rolling_mean xs w i) (map_option (\<lambda>s. s * threshold) (rolling_std xs w i))"

definition anomaly :: "real option list \<Rightarrow> nat \<Rightarrow> real \<Rightarrow> nat \<Rightarrow> bool" where
  "anomaly xs w threshold i =
     (nan_gt (xs ! i) (upper_bound xs w threshold i) \<or>
      nan_lt (xs ! i) (lower_bound xs w threshold i))"

text \<open>
  The frame is a list of rows and \<open>column\<close> reads the analysed column of a row. The
  result lists the flagged rows with their 0-based positions, in order. A negative
  window makes \<open>rolling\<close> raise ValueError; the \<open>except\<close> clause then returns an empty
  frame.
\<close>

definition identify_anomalies ::
  "'r list \<Rightarrow> ('r \<Rightarrow> real option) \<Rightarrow> int \<Rightarrow> real \<Rightarrow> (nat \<times> 'r) list" where
  "identify_anomalies df column window threshold =
     (if window < 0 then []
      else filter (\<lambda>(i, r). anomaly (map column df) (nat window) threshold i)
             (zip [0..<length df] df))"

section \<open>Aggregator (analysis.py, prepare\_trends\_data)\<close>

datatype error = KeyError | ValueError

text \<open>The \<open>Date\<close> column holds a time stamp (daily and monthly view), the text
  \<open>"YYYY Q#"\<close> of a year and a quarter, or the text of a year; \<open>None\<close> is a missing
  entry (NaT or NaN).\<close>

datatype label = Stamp int | Quarter_label int int | Year_label int

record trend_row =
  Date :: "label option"
  Consumption :: "real option"
  Generation :: "real option"

definition gen_column_names :: "string list \<Rightarrow> string list" where
  "gen_column_names selected_sources =
     map (\<lambda>source. source @ '' [MWh] Calculated resolutions'') selected_sources"

text \<open>The aggregation \<open>"first"\<close>: the first entry of the group that is not missing.\<close>

definition first_valid :: "'a option list \<Rightarrow> 'a option" where
  "first_valid xs = (case List.map_filter (\<lambda>x. x) xs of [] \<Rightarrow> None | v # _ \<Rightarrow> Some v)"

text \<open>
  \<open>pd.DataFrame({...})\<close> of series that carry the indexes \<open>0..n-1\<close> and \<open>0..m-1\<close> left
  by \<open>reset_index\<close>: the frame's index is the union of the two, and a series without an
  entry at a position contributes a missing value there.
\<close>

definition at_index :: "'a option list \<Rightarrow> nat \<Rightarrow> 'a option" where
  "at_index xs i = (if i < length xs then xs ! i else None)"

definition frame_of_series ::
  "label option list \<Rightarrow> real option list \<Rightarrow> real option list \<Rightarrow> trend_row list" where
  "frame_of_series dates cons gens =
     map (\<lambda>i. \<lparr>Date = at_index dates i, Consumption = at_index cons i,
                Generation = at_index gens i\<rparr>)
       [0..<max (length cons) (length gens)]"

text \<open>The same with the scalar \<open>np.nan\<close> for the generation column.\<close>

definition frame_of_scalar :: "label option list \<Rightarrow> real option list \<Rightarrow> trend_row list" where
  "frame_of_scalar dates cons =
     map (\<lambda>i. \<lparr>Date = at_index dates i, Consumption = at_index cons i, Generation = None\<rparr>)
       [0..<length cons]"

text \<open>One group of the consumption table: its consumption sum.\<close>

definition cons_sum :: "(cons_row \<Rightarrow> 'k option) \<Rightarrow> cons_row list \<Rightarrow> 'k \<Rightarrow> real" where
  "cons_sum key df k = nansum (map Total_load (members key df k))"

text \<open>One group of the generation table: \<open>gen[gen_columns].sum(axis=1)\<close> of the grouped
  frame, the sum over the selected columns of each column's sum in the group.\<close>

definition gen_sum :: "(gen_row \<Rightarrow> 'k option) \<Rightarrow> gen_row list \<Rightarrow> string list \<Rightarrow> 'k \<Rightarrow> real" where
  "gen_sum key df gen_columns k =
     sum_list (map (\<lambda>col. nansum (map (\<lambda>r. cell r col) (members key df k))) gen_columns)"

text \<open>
  The group-by of the generation table is keyed by the column names; a name that is no
  column raises KeyError. The quarterly and yearly views aggregate with the dictionary
  of the selected columns alone, and aggregating with an empty dictionary raises
  ValueError. In the quarterly view the labels are written by \<open>apply(..., axis=1)\<close>;
  on a frame without rows it gives back a frame, and storing a frame of several columns
  under the single name \<open>Date\<close> raises ValueError. No exception is caught in this
  function.
\<close>

definition prepare_trends_data ::
  "cons_row list \<Rightarrow> gen_frame \<Rightarrow> string list \<Rightarrow> string \<Rightarrow> error + trend_row list" where
  "prepare_trends_data filtered_energy_cons filtered_energy_gen selected_sources view_type =
     (let gen_columns = gen_column_names selected_sources;
          gen = rows filtered_energy_gen in
      if view_type = ''Daily'' then
        (if \<not> set gen_columns \<subseteq> set (columns filtered_energy_gen) then Inl KeyError
         else
           (let gen_data = map (\<lambda>r. Some (nansum (map (cell r) gen_columns))) gen in
            Inr (map (\<lambda>(i, r).
                   \<lparr>Date = map_option Stamp (Start_date r), Consumption = Total_load r,
                    Generation =
                      (if length gen_data = length filtered_energy_cons then gen_data ! i
                       else None)\<rparr>)
                 (zip [0..<length filtered_energy_cons] filtered_energy_cons))))
      else if view_type = ''Monthly'' then
        (let cons_keys = group_keys year_month filtered_energy_cons;
             dates = map (\<lambda>k. map_option Stamp
                       (first_valid (map Start_date (members year_month filtered_energy_cons k))))
                     cons_keys;
             cons_monthly = map (\<lambda>k. Some (cons_sum year_month filtered_energy_cons k)) cons_keys
         in
         if \<not> set gen_columns \<subseteq> set (columns filtered_energy_gen) then Inl KeyError
         else
           (let gen_keys = group_keys year_month gen;
                gen_monthly = map (\<lambda>k. Some (gen_sum year_month gen gen_columns k)) gen_keys
            in
            if gen_monthly \<noteq> [] then Inr (frame_of_series dates cons_monthly gen_monthly)
            else Inr (frame_of_scalar dates cons_monthly)))
      else if view_type = ''Quarterly'' then
        (let cons_keys = group_keys year_quarter filtered_energy_cons;
             cons_quarterly = map (\<lambda>k. Some (cons_sum year_quarter filtered_energy_cons k)) cons_keys
         in
         if \<not> set gen_columns \<subseteq> set (columns filtered_energy_gen) then Inl KeyError
         else if gen_columns = [] then Inl ValueError
         else
           (let gen_keys = group_keys year_quarter gen;
                gen_quarterly = map (\<lambda>k. Some (gen_sum year_quarter gen gen_columns k)) gen_keys
            in
            if cons_keys = [] then Inl ValueError
            else if gen_keys = [] then Inl ValueError
            else
              (let dates = map (\<lambda>k. Some (Quarter_label (fst k) (snd k))) cons_keys in
               if gen_quarterly \<noteq> [] then Inr (frame_of_series dates cons_quarterly gen_quarterly)
               else Inr (frame_of_scalar dates cons_quarterly))))
      else
        (let cons_keys = group_keys Year filtered_energy_cons;
             cons_yearly = map (\<lambda>k. Some (cons_sum Year filtered_energy_cons k)) cons_keys
         in
         if \<not> set gen_columns \<subseteq> set (columns filtered_energy_gen) then Inl KeyError
         else if gen_columns = [] then Inl ValueError
         else
           (let gen_keys = group_keys Year gen;
                gen_yearly = map (\<lambda>k. Some (gen_sum Year gen gen_columns k)) gen_keys;
                dates = map (\<lambda>k. Some (Year_label k)) cons_keys
            in
            if gen_yearly \<noteq> [] then Inr (frame_of_series dates cons_yearly gen_yearly)
            else Inr (frame_of_scalar dates cons_yearly))))"

section \<open>MetricsSummarizer (analysis.py, analyze\_energy\_trends)\<close>

text \<open>The test \<open>sub in s\<close> on strings, and \<open>str.lower\<close> on ASCII letters.\<close>

fun starts_with :: "string \<Rightarrow> string \<Rightarrow> bool" where
  "starts_with [] s = True"
| "starts_with (x # xs) [] = False"
| "starts_with (x # xs) (y # ys) = (x = y \<and> starts_with xs ys)"

fun contains :: "string \<Rightarrow> string \<Rightarrow> bool" where
  "contains sub [] = (sub = [])"
| "contains sub (c # cs) = (starts_with sub (c # cs) \<or> contains sub cs)"

definition lower_char :: "char \<Rightarrow> char" where
  "lower_char c =
     (let n = (of_char c :: nat) in if 65 \<le> n \<and> n \<le> 90 then char_of (n + 32) else c)"

definition lower :: "string \<Rightarrow> string" where
  "lower s = map lower_char s"

definition total_consumption :: "cons_row list \<Rightarrow> real" where
  "total_consumption energy_cons = nansum (map Total_load energy_cons)"

definition mwh_columns :: "gen_frame \<Rightarrow> string list" where
  "mwh_columns energy_gen = filter (contains ''[MWh]'') (columns energy_gen)"

text \<open>\<open>energy_gen[cols].apply(pd.to_numeric, errors='coerce').sum().sum()\<close>: the sum
  over the columns of each column's sum.\<close>

definition frame_total :: "gen_frame \<Rightarrow> string list \<Rightarrow> real" where
  "frame_total energy_gen cols =
     sum_list (map (\<lambda>col. nansum (map (\<lambda>r. cell r col) (rows energy_gen))) cols)"

definition total_generation :: "gen_frame \<Rightarrow> real" where
  "total_generation energy_gen = frame_total energy_gen (mwh_columns energy_gen)"

definition efficiency_ratio :: "real \<Rightarrow> real \<Rightarrow> real" where
  "efficiency_ratio total_gen total_cons =
     (if total_cons > 0 then (total_gen / total_cons) * 100 else 0)"

definition consumption_by_year :: "cons_row list \<Rightarrow> (int \<times> real) list" where
  "consumption_by_year energy_cons =
     map (\<lambda>y. (y, cons_sum Year energy_cons y)) (group_keys Year energy_cons)"

text \<open>The division of two sums is a floating-point division: by 0 it gives an infinity
  or NaN and no exception. \<open>None\<close> is such a value that is not a finite number.\<close>

definition yoy_growth :: "(int \<times> real) list \<Rightarrow> real option" where
  "yoy_growth by_year =
     (if length by_year > 1 then
        (let current_year = snd (last by_year);
             previous_year = snd (by_year ! (length by_year - 2))
         in if previous_year = 0 then None
            else Some ((current_year / previous_year - 1) * 100))
      else Some 0)"

fun list_max :: "real \<Rightarrow> real list \<Rightarrow> real" where
  "list_max v [] = v"
| "list_max v (x # xs) = list_max (max v x) xs"

text \<open>
  \<open>idxmax\<close> raises ValueError on a column without rows; on a column of NaN alone it
  gives NaN, which \<open>.loc\<close> then does not find (KeyError). Otherwise the peak date is the
  \<open>Start date\<close> of the first row that holds the maximum.
\<close>

definition peak :: "cons_row list \<Rightarrow> error + (real \<times> int option)" where
  "peak energy_cons =
     (if energy_cons = [] then Inl ValueError
      else
        (case List.map_filter Total_load energy_cons of
           [] \<Rightarrow> Inl KeyError
         | v # vs \<Rightarrow>
             (let peak_consumption = list_max v vs in
              (case find (\<lambda>r. Total_load r = Some peak_consumption) energy_cons of
                 None \<Rightarrow> Inl KeyError
               | Some r \<Rightarrow> Inr (peak_consumption, Start_date r)))))"

definition renewable_columns :: "string list \<Rightarrow> string list" where
  "renewable_columns gen_columns =
     filter (\<lambda>col. list_ex (\<lambda>source. contains source (lower col))
                     [''solar'', ''wind'', ''hydro'', ''biomass'', ''geothermal''])
       gen_columns"

definition renewable_percentage :: "gen_frame \<Rightarrow> real" where
  "renewable_percentage energy_gen =
     (let gen_columns = mwh_columns energy_gen;
          total_gen = total_generation energy_gen;
          renewable = renewable_columns gen_columns in
      if renewable \<noteq> [] then
        (let renewable_generation = frame_total energy_gen renewable in
         if total_gen > 0 then (renewable_generation / total_gen) * 100 else 0)
      else 0)"

text \<open>The mean of a group skips NaN and is NaN when the group holds no number.\<close>

definition nanmean :: "real option list \<Rightarrow> real option" where
  "nanmean xs =
     (case List.map_filter (\<lambda>x. x) xs of [] \<Rightarrow> None | v # vs \<Rightarrow> Some (mean (v # vs)))"

definition seasonal_consumption :: "cons_row list \<Rightarrow> (int \<times> real option) list" where
  "seasonal_consumption energy_cons =
     map (\<lambda>q. (q, nanmean (map Total_load (members Quarter energy_cons q))))
       (group_keys Quarter energy_cons)"

text \<open>The answer for the highest quarter: Python's \<open>None\<close> when there is no group, NaN
  when no group has a mean, else the first quarter that holds the greatest mean.\<close>

datatype quarter_answer = No_quarter | NaN_quarter | Quarter_is int

definition highest_quarter :: "(int \<times> real option) list \<Rightarrow> quarter_answer" where
  "highest_quarter seasonal =
     (if seasonal = [] then No_quarter
      else
        (case List.map_filter snd seasonal of
           [] \<Rightarrow> NaN_quarter
         | v # vs \<Rightarrow>
             (case find (\<lambda>(q, m). m = Some (list_max v vs)) seasonal of
                None \<Rightarrow> NaN_quarter
              | Some (q, m) \<Rightarrow> Quarter_is q)))"

text \<open>The values of the metrics dictionary.\<close>

datatype metric =
    Number "real option"
  | Time "int option"
  | Quarter_of quarter_answer
  | By_year "(int \<times> real) list"

text \<open>
  The summarizer is given the consumption table as it comes: the names of its columns,
  whether the load column has a numeric dtype (\<open>select_dtypes\<close> keeps the numeric
  columns only), and its rows. What a row holds under a name that is no column of the
  frame is never read.
\<close>

record cons_frame =
  cons_columns :: "string list"
  load_numeric :: bool
  cons_rows :: "cons_row list"

definition load_column :: string where
  "load_column = ''Total (grid load) [MWh] Calculated resolutions''"

text \<open>
  The body of the \<open>try\<close> block, in the order of its statements. Reading a column
  that the frame does not have raises KeyError: the numeric load column (line 28),
  \<open>Year\<close> (line 38), \<open>Start date\<close> (line 53) and \<open>Quarter\<close> (line 64); the search
  for the peak raises on a load column without a number.
\<close>

definition metrics :: "gen_frame \<Rightarrow> cons_frame \<Rightarrow> error + (string \<times> metric) list" where
  "metrics energy_gen energy_cons =
     (let df = cons_rows energy_cons; names = set (cons_columns energy_cons) in
      if load_column \<notin> names \<or> \<not> load_numeric energy_cons then Inl KeyError
      else
        (let total_cons = total_consumption df;
             total_gen = total_generation energy_gen;
             ratio = efficiency_ratio total_gen total_cons
         in
         if ''Year'' \<notin> names then Inl KeyError
         else
           (let by_year = consumption_by_year df;
                yoy = yoy_growth by_year
            in
            (case peak df of
               Inl e \<Rightarrow> Inl e
             | Inr (peak_consumption, peak_date) \<Rightarrow>
                 if ''Start date'' \<notin> names then Inl KeyError
                 else
                   (let renewable = renewable_percentage energy_gen in
                    if ''Quarter'' \<notin> names then Inl KeyError
                    else
                      (let quarter = highest_quarter (seasonal_consumption df)
                       in Inr
                         [(''total_consumption'', Number (Some total_cons)),
                          (''total_generation'', Number (Some total_gen)),
                          (''efficiency_ratio'', Number (Some ratio)),
                          (''yoy_growth'', Number yoy),
                          (''peak_consumption'', Number (Some peak_consumption)),
                          (''peak_date'', Time peak_date),
                          (''renewable_percentage'', Number (Some renewable)),
                          (''highest_quarter'', Quarter_of quarter),
                          (''consumption_by_year'', By_year by_year)]))))))"

text \<open>\<open>except Exception\<close> turns every exception of the body into the empty
  dictionary.\<close>

definition analyze_energy_trends :: "gen_frame \<Rightarrow> cons_frame \<Rightarrow> (string \<rightharpoonup> metric)" where
  "analyze_energy_trends energy_gen energy_cons =
     (case metrics energy_gen energy_cons of
        Inl e \<Rightarrow> Map.empty
      | Inr entries \<Rightarrow> map_of entries)"

definition metric_keys :: "string set" where
  "metric_keys =
     {''total_consumption'', ''total_generation'', ''efficiency_ratio'', ''yoy_growth'',
      ''peak_consumption'', ''peak_date'', ''renewable_percentage'', ''highest_quarter'',
      ''consumption_by_year''}"

section \<open>Example tables\<close>

text \<open>A consumption row of a given year and month, and a table of the twelve months of
  2023 in which January occurs twice.\<close>

definition example_row :: "int \<Rightarrow> int \<Rightarrow> real \<Rightarrow> cons_row" where
  "example_row y m v =
     \<lparr>Start_date = Some (y * 372 + m * 31), Year = Some y, Month = Some m,
      Quarter = Some ((m - 1) div 3 + 1), Total_load = Some v\<rparr>"

text \<open>A consumption frame with the columns the loader gives it.\<close>

definition loaded :: "cons_row list \<Rightarrow> cons_frame" where
  "loaded df =
     \<lparr>cons_columns = [''ID'', ''Start date'', load_column, ''Year'', ''Month'', ''Day'',
                       ''WeekDay'', ''Quarter'', ''MonthName''],
      load_numeric = True, cons_rows = df\<rparr>"



section \<open>Properties of the filter\<close>

lemma row_mask_iff:
  "row_mask ys ms r \<longleftrightarrow>
     (\<exists>y m. Year r = Some y \<and> Month r = Some m \<and> fst ys \<le> y \<and> y \<le> snd ys \<and> m \<in> set ms)"
  by (auto simp: row_mask_def year_ge_def year_le_def isin_def split: option.splits)

lemma row_mask_no_months: "\<not> row_mask ys [] r"
  by (simp add: row_mask_def isin_def split: option.splits)

text \<open>
  C3. The filter keeps, in both tables, exactly the rows of the input whose year lies
  between the two bounds, both inclusive, and whose month is one of the selected months;
  the generation frame keeps its columns. With no month selected both results are
  tables without rows, and nothing is raised.
\<close>

theorem filter_data_keeps_exactly:
  "filter_data g c ys ms ss =
     (g\<lparr>rows := filter (row_mask ys ms) (rows g)\<rparr>, filter (row_mask ys ms) c)
   \<and> (gr \<in> set (rows (fst (filter_data g c ys ms ss))) \<longleftrightarrow>
        gr \<in> set (rows g) \<and>
        (\<exists>y m. Year gr = Some y \<and> Month gr = Some m \<and> fst ys \<le> y \<and> y \<le> snd ys \<and> m \<in> set ms))
   \<and> (cr \<in> set (snd (filter_data g c ys ms ss)) \<longleftrightarrow>
        cr \<in> set c \<and>
        (\<exists>y m. Year cr = Some y \<and> Month cr = Some m \<and> fst ys \<le> y \<and> y \<le> snd ys \<and> m \<in> set ms))
   \<and> rows (fst (filter_data g c ys [] ss)) = []
   \<and> snd (filter_data g c ys [] ss) = []"
  by (simp add: filter_data_def select_gen_def row_mask_iff row_mask_no_months)

theorem filter_data_keeps_exactly_witness:
  "snd (filter_data \<lparr>columns = [], rows = []\<rparr>
      [\<lparr>Start_date = Some 1, Year = Some 2022, Month = Some 2, Quarter = Some 1,
         Total_load = Some 90\<rparr>,
       \<lparr>Start_date = Some 2, Year = Some 2023, Month = Some 1, Quarter = Some 1,
         Total_load = Some 100\<rparr>,
       \<lparr>Start_date = Some 3, Year = Some 2023, Month = Some 2, Quarter = Some 1,
         Total_load = Some 120\<rparr>,
       \<lparr>Start_date = None, Year = None, Month = None, Quarter = None,
         Total_load = Some 7\<rparr>]
      (2023, 2023) [2, 3] [])
   = [\<lparr>Start_date = Some 3, Year = Some 2023, Month = Some 2, Quarter = Some 1,
        Total_load = Some 120\<rparr>]"
  by (simp add: filter_data_keeps_exactly row_mask_def year_ge_def year_le_def isin_def)

text \<open>
  C8. Filtering is idempotent: the filter applied to its own result, with the same year
  range and months, gives that result again.
\<close>

theorem filter_data_idempotent:
  "filter_data (fst (filter_data x_gen x_cons ys ms ss)) (snd (filter_data x_gen x_cons ys ms ss))
       ys ms ss
   = filter_data x_gen x_cons ys ms ss"
  by (simp add: filter_data_def select_gen_def)

theorem filter_data_idempotent_witness:
  "filter_data
     (fst (filter_data \<lparr>columns = [], rows = []\<rparr>
        [\<lparr>Start_date = Some 2, Year = Some 2023, Month = Some 1, Quarter = Some 1,
           Total_load = Some 100\<rparr>,
         \<lparr>Start_date = Some 3, Year = Some 2024, Month = Some 2, Quarter = Some 1,
           Total_load = Some 120\<rparr>] (2023, 2023) [1] []))
     (snd (filter_data \<lparr>columns = [], rows = []\<rparr>
        [\<lparr>Start_date = Some 2, Year = Some 2023, Month = Some 1, Quarter = Some 1,
           Total_load = Some 100\<rparr>,
         \<lparr>Start_date = Some 3, Year = Some 2024, Month = Some 2, Quarter = Some 1,
           Total_load = Some 120\<rparr>] (2023, 2023) [1] []))
     (2023, 2023) [1] []
   = (\<lparr>columns = [], rows = []\<rparr>,
      [\<lparr>Start_date = Some 2, Year = Some 2023, Month = Some 1, Quarter = Some 1,
         Total_load = Some 100\<rparr>])"
  by (simp add: filter_data_idempotent)
    (simp add: filter_data_def select_gen_def row_mask_def year_ge_def year_le_def isin_def)

text \<open>
  C10. The two definitions of \<open>filter_data\<close> in the loader module, the earlier one and
  the later one that shadows it, return the same pair on every input.
\<close>

theorem filter_data_definitions_agree:
  "filter_data_earlier g c ys ms ss = filter_data g c ys ms ss"
  by (simp add: filter_data_earlier_def filter_data_def)

theorem filter_data_definitions_agree_witness:
  "filter_data_earlier \<lparr>columns = [], rows = []\<rparr>
     [\<lparr>Start_date = Some 2, Year = Some 2023, Month = Some 1, Quarter = Some 1,
        Total_load = Some 100\<rparr>,
      \<lparr>Start_date = Some 3, Year = Some 2024, Month = Some 2, Quarter = Some 1,
        Total_load = Some 120\<rparr>] (2024, 2025) [2] []
   = (\<lparr>columns = [], rows = []\<rparr>,
      [\<lparr>Start_date = Some 3, Year = Some 2024, Month = Some 2, Quarter = Some 1,
         Total_load = Some 120\<rparr>])"
  by (simp add: filter_data_definitions_agree)
    (simp add: filter_data_def select_gen_def row_mask_def year_ge_def year_le_def isin_def)

section \<open>Properties of the anomaly detector\<close>

lemma those_length: "those xs = Some ys \<Longrightarrow> length ys = length xs"
  by (induction xs arbitrary: ys) (auto split: option.splits)

lemma those_replicate_Some: "those (replicate n (Some v)) = Some (replicate n v)"
  by (induction n) auto

lemma those_None_mem: "None \<in> set xs \<Longrightarrow> those xs = None"
  by (induction xs) (auto split: option.splits)

text \<open>A row is flagged only where a bound is a number, hence where the rolling mean
  is one, hence where a full window ends.\<close>

lemma anomaly_needs_window:
  assumes "anomaly xs w t i"
  shows "w \<le> i + 1"
proof -
  from assms have "upper_bound xs w t i \<noteq> None \<or> lower_bound xs w t i \<noteq> None"
    by (auto simp: anomaly_def nan_gt_def nan_lt_def split: option.splits)
  then have "rolling_mean xs w i \<noteq> None"
    by (auto simp: upper_bound_def lower_bound_def nan_add_def nan_sub_def split: option.splits)
  then have "window_values xs w i \<noteq> None"
    by (auto simp: rolling_mean_def split: option.splits)
  then show ?thesis
    by (auto simp: window_values_def split: if_splits)
qed

text \<open>
  C4. For every series, window and threshold, a row in the detector's result has a
  0-based position of at least \<open>window - 1\<close>: no earlier row is ever flagged.
\<close>

theorem early_rows_never_flagged:
  assumes "(i, r) \<in> set (identify_anomalies df column window threshold)"
  shows "window - 1 \<le> int i"
proof -
  from assms have "anomaly (map column df) (nat window) threshold i"
    by (auto simp: identify_anomalies_def split: if_splits)
  then have "nat window \<le> i + 1" by (rule anomaly_needs_window)
  then show ?thesis by linarith
qed

theorem early_rows_never_flagged_witness:
  "(2, Some 10) \<in> set (identify_anomalies [Some 1, Some 1, Some (10::real)] (\<lambda>x. x) 2 0)
   \<and> (2::int) - 1 \<le> int 2"
proof -
  have w: "window_values [Some 1, Some 1, Some (10::real)] 2 2 = Some [1, 10]"
    by (simp add: window_values_def)
  have "anomaly [Some 1, Some 1, Some (10::real)] 2 0 2"
    by (simp add: anomaly_def upper_bound_def rolling_mean_def rolling_std_def w
        nan_add_def nan_gt_def mean_def)
  then have h: "(2, Some 10) \<in> set (identify_anomalies [Some 1, Some 1, Some (10::real)] (\<lambda>x. x) 2 0)"
    by (simp add: identify_anomalies_def upt_rec numeral_2_eq_2 numeral_3_eq_3)
  from early_rows_never_flagged [OF h] h show ?thesis by simp
qed

lemma mean_replicate: "0 < n \<Longrightarrow> mean (replicate n v) = v"
  by (simp add: mean_def sum_list_replicate)

lemma sample_std_replicate: "0 < n \<Longrightarrow> sample_std (replicate n v) = 0"
  by (simp add: sample_std_def mean_replicate map_replicate_const sum_list_replicate)

lemma window_values_constant:
  assumes "window_values (replicate n (Some v)) w i = Some vs" and "i < n"
  shows "vs = replicate w v"
proof -
  from assms have w: "w \<le> i + 1"
    and t: "those (take w (drop (i + 1 - w) (replicate n (Some v)))) = Some vs"
    by (auto simp: window_values_def split: if_splits)
  from w \<open>i < n\<close> have "min w (n - (i + 1 - w)) = w" by linarith
  then have "take w (drop (i + 1 - w) (replicate n (Some v))) = replicate w (Some v)"
    by simp
  with t show ?thesis
    by (simp add: those_replicate_Some)
qed

text \<open>On a constant column the window's mean is the constant and its deviation is 0,
  so both bounds are the constant itself; a column of NaN compares to nothing.\<close>

lemma constant_never_anomalous:
  assumes "i < n"
  shows "\<not> anomaly (replicate n c) w t i"
proof (cases c)
  case None
  with assms show ?thesis by (simp add: anomaly_def nan_gt_def nan_lt_def)
next
  case (Some v)
  show ?thesis
  proof (cases "window_values (replicate n (Some v)) w i")
    case None
    then show ?thesis
      by (simp add: Some anomaly_def upper_bound_def lower_bound_def rolling_mean_def
          nan_add_def nan_sub_def nan_gt_def nan_lt_def split: option.splits)
  next
    case (Some vs)
    with assms have vs: "vs = replicate w v" by (simp add: window_values_constant)
    show ?thesis
    proof (cases "2 \<le> w")
      case True
      then have "mean vs = v" "sample_std vs = 0"
        by (simp_all add: vs mean_replicate sample_std_replicate)
      with True Some assms show ?thesis
        by (simp add: \<open>c = Some v\<close> anomaly_def upper_bound_def lower_bound_def
            rolling_mean_def rolling_std_def nan_add_def nan_sub_def nan_gt_def nan_lt_def)
    next
      case False
      with Some assms show ?thesis
        by (simp add: \<open>c = Some v\<close> anomaly_def upper_bound_def lower_bound_def
            rolling_mean_def rolling_std_def nan_add_def nan_sub_def nan_gt_def nan_lt_def
            split: option.splits)
    qed
  qed
qed

text \<open>
  C9. On a series whose entries are all equal, of any length, the detector returns no
  row, for every window and every threshold greater than 0.
\<close>

theorem constant_series_no_anomalies:
  assumes "\<forall>r \<in> set df. column r = c" and "0 < threshold"
  shows "identify_anomalies df column window threshold = []"
proof -
  from assms(1) have m: "map column df = replicate (length df) c"
    by (simp add: map_replicate_const [symmetric] cong: map_cong)
  have "\<not> anomaly (map column df) (nat window) threshold i" if "i < length df" for i
    using that by (simp add: m constant_never_anomalous)
  then have "filter (\<lambda>(i, r). anomaly (map column df) (nat window) threshold i)
               (zip [0..<length df] df) = []"
    by (auto simp: filter_empty_conv in_set_zip)
  then show ?thesis by (simp add: identify_anomalies_def)
qed

theorem constant_series_no_anomalies_witness:
  "(0::real) < 1 \<and> identify_anomalies [Some 5, Some 5, Some (5::real)] (\<lambda>x. x) 2 1 = []"
proof -
  have h: "\<forall>r \<in> set [Some 5, Some 5, Some (5::real)]. (\<lambda>x. x) r = Some 5" by simp
  have t: "(0::real) < 1" by simp
  from constant_series_no_anomalies [OF h t, of 2] t show ?thesis by simp
qed

section \<open>Properties of the forecaster\<close>

lemma length_monthly_sums: "length (monthly_sums df) = length (group_keys year_month df)"
  by (simp add: monthly_sums_def)

text \<open>
  C6. A consumption table whose monthly aggregation has fewer than 12 distinct
  (year, month) groups gets the pair \<open>(None, None)\<close>, for every number of periods.
\<close>

theorem short_history_no_forecast:
  assumes "length (group_keys year_month df) < 12"
  shows "forecast_energy_trends df periods = None"
proof (cases "those (map (to_datetime \<circ> fst) (monthly_sums df))")
  case None
  then show ?thesis by (simp add: forecast_energy_trends_def)
next
  case (Some dates)
  then have "length dates = length (monthly_sums df)"
    by (auto dest: those_length)
  with assms Some show ?thesis
    by (simp add: forecast_energy_trends_def length_monthly_sums)
qed

theorem short_history_no_forecast_witness:
  "length (group_keys year_month [example_row 2023 1 100, example_row 2023 2 120]) < 12
   \<and> forecast_energy_trends [example_row 2023 1 100, example_row 2023 2 120] 12 = None"
proof -
  have h: "length (group_keys year_month [example_row 2023 1 100, example_row 2023 2 120]) < 12"
    by (simp add: group_keys_def year_month_def example_row_def)
  from short_history_no_forecast [OF h] h show ?thesis by simp
qed

text \<open>Day numbers of known dates.\<close>

lemma days_from_civil_examples:
  "days_from_civil 1970 1 1 = 0"
  "days_from_civil 2000 3 1 = 11017"
  "days_from_civil 1677 9 22 = - 106751"
  "days_from_civil 2262 4 11 = 106751"
  "days_from_civil 2023 12 1 = 19692"
  "days_from_civil 2261 12 1 = 106620"
  by (simp_all add: days_from_civil_def)













section \<open>Properties of the metrics summarizer\<close>

lemma metrics_keys:
  "metrics g c = Inr entries \<Longrightarrow> dom (map_of entries) = metric_keys"
  by (auto simp: metrics_def metric_keys_def Let_def dom_map_of_conv_image_fst
      split: sum.splits prod.splits if_splits)

lemma metrics_ratio:
  "metrics g c = Inr entries \<Longrightarrow>
     map_of entries ''efficiency_ratio''
       = Some (Number (Some (efficiency_ratio (total_generation g)
                               (total_consumption (cons_rows c)))))"
  by (auto simp: metrics_def Let_def split: sum.splits prod.splits if_splits)

text \<open>
  C7. Whenever a step of the summarizer raises, the result is the empty mapping; on
  every input the result is either empty or holds all nine metrics, never a part of
  them, and no exception leaves the function.
\<close>

theorem failure_gives_empty_metrics:
  "(\<forall>e. metrics g c = Inl e \<longrightarrow> analyze_energy_trends g c = Map.empty)
   \<and> (dom (analyze_energy_trends g c) = {} \<or> dom (analyze_energy_trends g c) = metric_keys)"
  by (cases "metrics g c") (simp_all add: analyze_energy_trends_def metrics_keys)

text \<open>Three failures: a frame without the load column, a load column of text, and a
  frame without rows.\<close>

theorem failure_gives_empty_metrics_witness:
  "metrics \<lparr>columns = [''Solar [MWh] Calculated resolutions''], rows = []\<rparr>
     \<lparr>cons_columns = [''Start date'', ''Year'', ''Quarter''], load_numeric = True,
      cons_rows = [example_row 2023 1 100]\<rparr> = Inl KeyError
   \<and> analyze_energy_trends \<lparr>columns = [''Solar [MWh] Calculated resolutions''], rows = []\<rparr>
     \<lparr>cons_columns = [''Start date'', ''Year'', ''Quarter''], load_numeric = True,
      cons_rows = [example_row 2023 1 100]\<rparr> = Map.empty
   \<and> analyze_energy_trends \<lparr>columns = [], rows = []\<rparr>
       ((loaded [example_row 2023 1 100])\<lparr>load_numeric := False\<rparr>) = Map.empty
   \<and> metrics \<lparr>columns = [], rows = []\<rparr> (loaded []) = Inl ValueError
   \<and> analyze_energy_trends \<lparr>columns = [], rows = []\<rparr> (loaded []) = Map.empty"
proof -
  let ?g = "\<lparr>columns = [''Solar [MWh] Calculated resolutions''], rows = []\<rparr>"
  let ?c = "\<lparr>cons_columns = [''Start date'', ''Year'', ''Quarter''], load_numeric = True,
      cons_rows = [example_row 2023 1 100]\<rparr>"
  let ?e = "\<lparr>columns = [], rows = []\<rparr>"
  have h1: "metrics ?g ?c = Inl KeyError"
    by (simp add: metrics_def load_column_def)
  have h2: "metrics ?e ((loaded [example_row 2023 1 100])\<lparr>load_numeric := False\<rparr>) = Inl KeyError"
    by (simp add: metrics_def loaded_def)
  have h3: "metrics ?e (loaded []) = Inl ValueError"
    by (simp add: metrics_def loaded_def peak_def)
  from failure_gives_empty_metrics [of ?g ?c]
    failure_gives_empty_metrics [of ?e "(loaded [example_row 2023 1 100])\<lparr>load_numeric := False\<rparr>"]
    failure_gives_empty_metrics [of ?e "loaded []"] h1 h2 h3
  show ?thesis by simp
qed

text \<open>The body completes exactly when the frame has the four columns it reads, the
  load column is numeric and some row holds a load.\<close>

lemma list_max_mem: "list_max v xs \<in> set (v # xs)"
  by (induction xs arbitrary: v) (auto simp: max_def)

lemma set_map_filter: "set (List.map_filter f xs) = {y. \<exists>x \<in> set xs. f x = Some y}"
  by (induction xs) (auto split: option.splits)

lemma peak_succeeds:
  assumes "\<exists>r \<in> set df. Total_load r \<noteq> None"
  shows "\<exists>p d. peak df = Inr (p, d)"
proof -
  from assms have ne: "df \<noteq> []" by auto
  from assms have "set (List.map_filter Total_load df) \<noteq> {}"
    by (auto simp: set_map_filter)
  then obtain v vs where vs: "List.map_filter Total_load df = v # vs"
    by (cases "List.map_filter Total_load df") auto
  have "list_max v vs \<in> set (List.map_filter Total_load df)"
    using list_max_mem [of v vs] by (simp add: vs)
  then obtain r where "r \<in> set df" "Total_load r = Some (list_max v vs)"
    by (auto simp: set_map_filter)
  then have "find (\<lambda>r. Total_load r = Some (list_max v vs)) df \<noteq> None"
    by (auto simp: find_None_iff)
  then show ?thesis
    using ne by (auto simp: peak_def vs Let_def)
qed

lemma peak_fails:
  assumes "\<forall>r \<in> set df. Total_load r = None"
  shows "\<exists>e. peak df = Inl e"
proof -
  from assms have "set (List.map_filter Total_load df) = {}"
    by (auto simp: set_map_filter)
  then have "List.map_filter Total_load df = []" by simp
  then show ?thesis by (simp add: peak_def)
qed

lemma metrics_succeeds:
  assumes "load_column \<in> set (cons_columns c)" "load_numeric c"
    "''Year'' \<in> set (cons_columns c)" "''Start date'' \<in> set (cons_columns c)"
    "''Quarter'' \<in> set (cons_columns c)" "\<exists>r \<in> set (cons_rows c). Total_load r \<noteq> None"
  shows "\<exists>entries. metrics g c = Inr entries"
proof -
  from peak_succeeds [OF assms(6)] obtain p d where "peak (cons_rows c) = Inr (p, d)" by blast
  with assms(1-5) show ?thesis
    by (simp add: metrics_def Let_def)
qed

lemma metrics_fails:
  assumes "\<not> (load_column \<in> set (cons_columns c) \<and> load_numeric c \<and>
    ''Year'' \<in> set (cons_columns c) \<and> ''Start date'' \<in> set (cons_columns c) \<and>
    ''Quarter'' \<in> set (cons_columns c) \<and> (\<exists>r \<in> set (cons_rows c). Total_load r \<noteq> None))"
  shows "\<exists>e. metrics g c = Inl e"
proof (cases "\<exists>r \<in> set (cons_rows c). Total_load r \<noteq> None")
  case True
  with assms show ?thesis
    by (auto simp: metrics_def Let_def split: sum.splits prod.splits)
next
  case False
  then have "\<forall>r \<in> set (cons_rows c). Total_load r = None" by simp
  from peak_fails [OF this] obtain e where "peak (cons_rows c) = Inl e" by blast
  then show ?thesis
    by (auto simp: metrics_def Let_def)
qed

text \<open>
  C5, as the code has it. On every pair of tables on which the summarizer completes
  (the consumption frame has its numeric load column and the columns \<open>Year\<close>,
  \<open>Start date\<close> and \<open>Quarter\<close>, and some row holds a load), the efficiency ratio it
  reports is \<open>total_generation / total_consumption * 100\<close> when the total consumption
  is greater than 0 and is 0 when the total consumption is 0 or negative; no division
  is attempted then. On every other pair, among them a consumption table without rows,
  whose total consumption is 0, a step raises and the summarizer reports no efficiency
  ratio.
\<close>

theorem efficiency_ratio_reported:
  "analyze_energy_trends g c ''efficiency_ratio'' =
     (if load_column \<in> set (cons_columns c) \<and> load_numeric c \<and>
         ''Year'' \<in> set (cons_columns c) \<and> ''Start date'' \<in> set (cons_columns c) \<and>
         ''Quarter'' \<in> set (cons_columns c) \<and>
         (\<exists>r \<in> set (cons_rows c). Total_load r \<noteq> None)
      then Some (Number (Some
             (if 0 < total_consumption (cons_rows c)
              then total_generation g / total_consumption (cons_rows c) * 100 else 0)))
      else None)"
proof (cases "load_column \<in> set (cons_columns c) \<and> load_numeric c \<and>
         ''Year'' \<in> set (cons_columns c) \<and> ''Start date'' \<in> set (cons_columns c) \<and>
         ''Quarter'' \<in> set (cons_columns c) \<and>
         (\<exists>r \<in> set (cons_rows c). Total_load r \<noteq> None)")
  case True
  then obtain entries where e: "metrics g c = Inr entries"
    using metrics_succeeds [of c g] by blast
  from metrics_ratio [OF e] e True show ?thesis
    by (simp add: analyze_energy_trends_def efficiency_ratio_def)
next
  case False
  from metrics_fails [OF False] obtain e where "metrics g c = Inl e" by blast
  with False show ?thesis
    by (simp add: analyze_energy_trends_def)
qed

text \<open>The example of the specification: generation 50 + 60 against consumption
  100 + 120 gives 50; and a consumption of 0 gives 0.\<close>

theorem efficiency_ratio_reported_witness:
  "analyze_energy_trends
     \<lparr>columns = [''Solar [MWh] Calculated resolutions''],
      rows = [\<lparr>Start_date = Some 1, Year = Some 2023, Month = Some 1, Quarter = Some 1,
               cell = (\<lambda>col. Some 50)\<rparr>,
              \<lparr>Start_date = Some 32, Year = Some 2023, Month = Some 2, Quarter = Some 1,
               cell = (\<lambda>col. Some 60)\<rparr>]\<rparr>
     (loaded [example_row 2023 1 100, example_row 2023 2 120])
     ''efficiency_ratio'' = Some (Number (Some 50))
   \<and> analyze_energy_trends
     \<lparr>columns = [''Solar [MWh] Calculated resolutions''],
      rows = [\<lparr>Start_date = Some 1, Year = Some 2023, Month = Some 1, Quarter = Some 1,
               cell = (\<lambda>col. Some 50)\<rparr>,
              \<lparr>Start_date = Some 32, Year = Some 2023, Month = Some 2, Quarter = Some 1,
               cell = (\<lambda>col. Some 60)\<rparr>]\<rparr>
     (loaded [example_row 2023 1 0])
     ''efficiency_ratio'' = Some (Number (Some 0))"
proof -
  let ?g = "\<lparr>columns = [''Solar [MWh] Calculated resolutions''],
      rows = [\<lparr>Start_date = Some 1, Year = Some 2023, Month = Some 1, Quarter = Some 1,
               cell = (\<lambda>col. Some 50)\<rparr>,
              \<lparr>Start_date = Some 32, Year = Some 2023, Month = Some 2, Quarter = Some 1,
               cell = (\<lambda>col. Some (60::real))\<rparr>]\<rparr>"
  let ?c = "loaded [example_row 2023 1 100, example_row 2023 2 120]"
  let ?z = "loaded [example_row 2023 1 0]"
  have tg: "total_generation ?g = 110"
    by (simp add: total_generation_def mwh_columns_def frame_total_def)
  have tc: "total_consumption (cons_rows ?c) = 220"
    by (simp add: total_consumption_def example_row_def loaded_def)
  have tz: "total_consumption (cons_rows ?z) = 0"
    by (simp add: total_consumption_def example_row_def loaded_def)
  have c: "analyze_energy_trends ?g ?c ''efficiency_ratio'' = Some (Number (Some 50))"
    using efficiency_ratio_reported [of ?g ?c]
    by (simp add: tg tc) (simp add: loaded_def load_column_def example_row_def)
  have z: "analyze_energy_trends ?g ?z ''efficiency_ratio'' = Some (Number (Some 0))"
    using efficiency_ratio_reported [of ?g ?z]
    by (simp add: tg tz) (simp add: loaded_def load_column_def example_row_def)
  from c z show ?thesis by simp
qed

text \<open>
  The claim C5 as it is written gives the quotient, or 0 at a total consumption of 0, for
  every pair of tables. With a total consumption of \<open>-10\<close> and a total generation of 5
  the quotient is \<open>-50\<close>, and the summarizer reports 0; with a consumption table
  without rows the total consumption is 0 and the summarizer reports no ratio at all.
\<close>

theorem efficiency_ratio_claim_fails:
  "analyze_energy_trends
     \<lparr>columns = [''Solar [MWh] Calculated resolutions''],
      rows = [\<lparr>Start_date = Some 1, Year = Some 2023, Month = Some 1, Quarter = Some 1,
               cell = (\<lambda>col. Some 5)\<rparr>]\<rparr>
     (loaded [\<lparr>Start_date = Some 1, Year = Some 2023, Month = Some 1, Quarter = Some 1,
               Total_load = Some (- 10)\<rparr>])
     ''efficiency_ratio'' = Some (Number (Some 0))
   \<and> total_generation
       \<lparr>columns = [''Solar [MWh] Calculated resolutions''],
        rows = [\<lparr>Start_date = Some 1, Year = Some 2023, Month = Some 1, Quarter = Some 1,
                 cell = (\<lambda>col. Some 5)\<rparr>]\<rparr>
     / total_consumption
         [\<lparr>Start_date = Some 1, Year = Some 2023, Month = Some 1, Quarter = Some 1,
           Total_load = Some (- 10)\<rparr>] * 100 = - 50
   \<and> total_consumption [] = 0
   \<and> analyze_energy_trends
       \<lparr>columns = [''Solar [MWh] Calculated resolutions''],
        rows = [\<lparr>Start_date = Some 1, Year = Some 2023, Month = Some 1, Quarter = Some 1,
                 cell = (\<lambda>col. Some 5)\<rparr>]\<rparr>
       (loaded []) ''efficiency_ratio'' = None"
  by (simp add: analyze_energy_trends_def metrics_def peak_def total_consumption_def
      total_generation_def mwh_columns_def frame_total_def efficiency_ratio_def Let_def
      loaded_def load_column_def)

section \<open>The monthly trend table on tables with different months\<close>

text \<open>
  C1. The consumption table has January and February 2023 (100 and 120), the generation
  table has February 2023 alone (Solar 60). The trend table pairs the buckets by their
  position after the group-by: the row dated January carries the generation of
  February, and the row dated February carries NaN. Alignment by (year, month) would
  give NaN on the January row and 60 on the February row.
\<close>

theorem monthly_trend_aligned_by_position:
  "prepare_trends_data
     [\<lparr>Start_date = Some 1, Year = Some 2023, Month = Some 1, Quarter = Some 1,
        Total_load = Some 100\<rparr>,
      \<lparr>Start_date = Some 32, Year = Some 2023, Month = Some 2, Quarter = Some 1,
        Total_load = Some 120\<rparr>]
     \<lparr>columns = [''Solar [MWh] Calculated resolutions''],
      rows = [\<lparr>Start_date = Some 32, Year = Some 2023, Month = Some 2, Quarter = Some 1,
               cell = (\<lambda>col. Some 60)\<rparr>]\<rparr>
     [''Solar''] ''Monthly''
   = Inr [\<lparr>Date = Some (Stamp 1), Consumption = Some 100, Generation = Some 60\<rparr>,
          \<lparr>Date = Some (Stamp 32), Consumption = Some 120, Generation = None\<rparr>]"
  by (simp add: prepare_trends_data_def gen_column_names_def group_keys_def year_month_def
      members_def cons_sum_def gen_sum_def first_valid_def frame_of_series_def
      at_index_def Let_def upt_rec)

end
